theory Spec2Isabelle
  imports Main
begin

section \<open>JavaScript values\<close>

text \<open>
  The notifier works on plain JavaScript data: notification payloads, schedules and the
  configuration. A value is one of the JSON-like shapes below. Numbers are the integral
  Numbers (the safe integers, which a double holds exactly) and \<open>NaN\<close>; fractions and the
  infinities are outside the model. A string is a list of code units below 256, so that
  \<open>length\<close> is the \<open>.length\<close> of the JavaScript string. An object is the list of
  its own properties in the order \<open>Object.keys\<close> enumerates them.
\<close>

datatype jsval =
    JUndefined
  | JNull
  | JBool bool
  | JNum int
  | JNaN
  | JStr string
  | JArr "jsval list"
  | JObj "(string \<times> jsval) list"

type_synonym obj = "(string \<times> jsval) list"

text \<open>The two error classes the sources throw, each with its message.\<close>

datatype error = Error string | TypeError string

text \<open>\<open>!v\<close> is \<open>\<not> truthy v\<close>.\<close>

fun truthy :: "jsval \<Rightarrow> bool" where
  "truthy JUndefined = False"
| "truthy JNull = False"
| "truthy (JBool b) = b"
| "truthy (JNum n) = (n \<noteq> 0)"
| "truthy JNaN = False"
| "truthy (JStr s) = (s \<noteq> [])"
| "truthy (JArr xs) = True"
| "truthy (JObj kvs) = True"

text \<open>\<open>a || b\<close>\<close>

definition js_or :: "jsval \<Rightarrow> jsval \<Rightarrow> jsval" where
  "js_or a b = (if truthy a then a else b)"

text \<open>\<open>typeof value === 'object'\<close> (true of \<open>null\<close> and of arrays) and its siblings.\<close>

fun isObject :: "jsval \<Rightarrow> bool" where
  "isObject JNull = True"
| "isObject (JArr xs) = True"
| "isObject (JObj kvs) = True"
| "isObject v = False"

fun isString :: "jsval \<Rightarrow> bool" where
  "isString (JStr s) = True"
| "isString v = False"

fun isArrayOfStrings :: "jsval \<Rightarrow> bool" where
  "isArrayOfStrings (JArr xs) = list_all isString xs"
| "isArrayOfStrings v = False"

text \<open>Property read \<open>o[k]\<close> (\<open>undefined\<close> when absent) and property write \<open>o[k] = v\<close>
  (in place when the key exists, appended otherwise).\<close>

fun obj_get :: "obj \<Rightarrow> string \<Rightarrow> jsval" where
  "obj_get [] k = JUndefined"
| "obj_get ((k', v) # kvs) k = (if k' = k then v else obj_get kvs k)"

fun obj_set :: "string \<Rightarrow> jsval \<Rightarrow> obj \<Rightarrow> obj" where
  "obj_set k v [] = [(k, v)]"
| "obj_set k v ((k', v') # kvs) = (if k' = k then (k, v) # kvs else (k', v') # obj_set k v kvs)"

text \<open>\<open>Object.assign(target, source)\<close>: the source's properties written in order.\<close>

definition obj_assign :: "obj \<Rightarrow> obj \<Rightarrow> obj" where
  "obj_assign target source = fold (\<lambda>(k, v) acc. obj_set k v acc) source target"

subsection \<open>Conversion to string\<close>

fun show_nat :: "nat \<Rightarrow> string" where
  "show_nat n =
     (if n < 10 then [''0123456789'' ! n]
      else show_nat (n div 10) @ [''0123456789'' ! (n mod 10)])"

declare show_nat.simps [simp del]

definition show_int :: "int \<Rightarrow> string" where
  "show_int i = (if i < 0 then CHR ''-'' # show_nat (nat (- i)) else show_nat (nat i))"

fun join :: "string \<Rightarrow> string list \<Rightarrow> string" where
  "join sep [] = []"
| "join sep [x] = x"
| "join sep (x # y # ys) = x @ sep @ join sep (y # ys)"

text \<open>\<open>ToString\<close>, as a template literal applies it: an array joins its elements with
  commas (\<open>null\<close> and \<open>undefined\<close> elements as the empty string), a plain object is
  \<open>[object Object]\<close>.\<close>

fun to_string :: "jsval \<Rightarrow> string" where
  "to_string JUndefined = ''undefined''"
| "to_string JNull = ''null''"
| "to_string (JBool b) = (if b then ''true'' else ''false'')"
| "to_string (JNum n) = show_int n"
| "to_string JNaN = ''NaN''"
| "to_string (JStr s) = s"
| "to_string (JArr xs) =
     join '','' (map (\<lambda>v. if v = JUndefined \<or> v = JNull then [] else to_string v) xs)"
| "to_string (JObj kvs) = ''[object Object]''"

section \<open>Dates\<close>

text \<open>
  Time values are milliseconds since the epoch, UTC. The calendar functions are those of
  ECMAScript's Date objects; \<open>YearFromTime\<close>, the largest year that starts no later than
  the instant, is found by counting up from a year that starts no later.
\<close>

definition msPerDay :: int where "msPerDay = 86400000"
definition msPerHour :: int where "msPerHour = 3600000"
definition msPerMinute :: int where "msPerMinute = 60000"

definition Day :: "int \<Rightarrow> int" where
  "Day t = t div msPerDay"

definition DaysInYear :: "int \<Rightarrow> int" where
  "DaysInYear y =
     (if y mod 4 \<noteq> 0 then 365 else if y mod 100 \<noteq> 0 then 366
      else if y mod 400 \<noteq> 0 then 365 else 366)"

definition DayFromYear :: "int \<Rightarrow> int" where
  "DayFromYear y =
     365 * (y - 1970) + (y - 1969) div 4 - (y - 1901) div 100 + (y - 1601) div 400"

text \<open>The search; that it stops is proved with the properties below.\<close>

function year_up :: "int \<Rightarrow> int \<Rightarrow> int" where
  "year_up d y = (if DayFromYear (y + 1) \<le> d then year_up d (y + 1) else y)"
  by pat_completeness auto

definition YearFromDay :: "int \<Rightarrow> int" where
  "YearFromDay d = year_up d (1970 + (if 0 \<le> d then d div 366 else d div 365))"

definition YearFromTime :: "int \<Rightarrow> int" where
  "YearFromTime t = YearFromDay (Day t)"

definition InLeapYear :: "int \<Rightarrow> int" where
  "InLeapYear t = (if DaysInYear (YearFromTime t) = 366 then 1 else 0)"

definition DayWithinYear :: "int \<Rightarrow> int" where
  "DayWithinYear t = Day t - DayFromYear (YearFromTime t)"

definition MonthFromTime :: "int \<Rightarrow> int" where
  "MonthFromTime t =
     (let d = DayWithinYear t; l = InLeapYear t in
      if d < 31 then 0 else if d < 59 + l then 1 else if d < 90 + l then 2
      else if d < 120 + l then 3 else if d < 151 + l then 4 else if d < 181 + l then 5
      else if d < 212 + l then 6 else if d < 243 + l then 7 else if d < 273 + l then 8
      else if d < 304 + l then 9 else if d < 334 + l then 10 else 11)"

definition DateFromTime :: "int \<Rightarrow> int" where
  "DateFromTime t =
     (let d = DayWithinYear t; l = InLeapYear t; m = MonthFromTime t in
      if m = 0 then d + 1 else if m = 1 then d - 30 else if m = 2 then d - 58 - l
      else if m = 3 then d - 89 - l else if m = 4 then d - 119 - l
      else if m = 5 then d - 150 - l else if m = 6 then d - 180 - l
      else if m = 7 then d - 211 - l else if m = 8 then d - 242 - l
      else if m = 9 then d - 272 - l else if m = 10 then d - 303 - l else d - 333 - l)"

definition HourFromTime :: "int \<Rightarrow> int" where
  "HourFromTime t = (t div msPerHour) mod 24"

definition MinFromTime :: "int \<Rightarrow> int" where
  "MinFromTime t = (t div msPerMinute) mod 60"

text \<open>The day number at which month \<open>m\<close> (from 0) of year \<open>y\<close> starts.\<close>

definition month_start :: "int \<Rightarrow> nat \<Rightarrow> int" where
  "month_start y m =
     (let l = (if DaysInYear y = 366 then 1 else 0) in
      DayFromYear y +
      [0, 31, 59 + l, 90 + l, 120 + l, 151 + l, 181 + l, 212 + l, 243 + l, 273 + l,
       304 + l, 334 + l, 365 + l] ! m)"

text \<open>A Date object holds a time value or is invalid (\<open>None\<close>, the time value \<open>NaN\<close>).
  \<open>TimeClip\<close> makes instants beyond 8.64e15 ms invalid.\<close>

type_synonym date = "int option"

definition TimeClip :: "int \<Rightarrow> date" where
  "TimeClip t = (if \<bar>t\<bar> > 8640000000000000 then None else Some t)"

text \<open>
  What the program takes from its host: the clock behind \<open>Date.now()\<close>, the string
  parser behind \<open>new Date(string)\<close>, whose result for strings outside the ISO format is
  up to the engine (\<open>None\<close> when the string is not recognised), and the outcome of
  \<open>buildTemplate(bucket, template, params)\<close>, which fetches a template from the object
  store and runs it (\<open>Some\<close> error when that fails).
\<close>

record env =
  now :: int
  date_parse :: "string \<Rightarrow> int option"
  buildTemplate :: "jsval \<Rightarrow> jsval \<Rightarrow> jsval \<Rightarrow> error option"

text \<open>
  One such parser, used in the examples: it reads the date-only form \<open>YYYY-MM-DD\<close> of the
  ISO format as midnight UTC and recognises nothing else.
\<close>

definition digits_value :: "string \<Rightarrow> nat" where
  "digits_value s = fold (\<lambda>c n. 10 * n + ((of_char c :: nat) - 48)) s 0"

definition parse_date_only :: "string \<Rightarrow> int option" where
  "parse_date_only s =
     (if length s = 10 \<and> s ! 4 = CHR ''-'' \<and> s ! 7 = CHR ''-'' \<and>
         list_all (\<lambda>c. c \<in> set ''0123456789'') (take 4 s @ take 2 (drop 5 s) @ drop 8 s)
      then
        (let y = int (digits_value (take 4 s));
             m = digits_value (take 2 (drop 5 s));
             d = int (digits_value (drop 8 s))
         in if 1 \<le> m \<and> m \<le> 12 \<and> 1 \<le> d \<and> month_start y (m - 1) + d \<le> month_start y m
            then Some (msPerDay * (month_start y (m - 1) + d - 1))
            else None)
      else None)"

text \<open>\<open>new Date(value)\<close>: a string (or an object, through its primitive, a string) is
  parsed, any other value is converted to a number.\<close>

fun new_Date :: "env \<Rightarrow> jsval \<Rightarrow> date" where
  "new_Date env (JStr s) = Option.bind (date_parse env s) TimeClip"
| "new_Date env (JArr xs) = Option.bind (date_parse env (to_string (JArr xs))) TimeClip"
| "new_Date env (JObj kvs) = Option.bind (date_parse env (to_string (JObj kvs))) TimeClip"
| "new_Date env (JNum n) = TimeClip n"
| "new_Date env (JBool b) = TimeClip (if b then 1 else 0)"
| "new_Date env JNull = TimeClip 0"
| "new_Date env JUndefined = None"
| "new_Date env JNaN = None"

text \<open>The getters return \<open>NaN\<close> on an invalid date.\<close>

definition getUTCMinutes :: "date \<Rightarrow> jsval" where
  "getUTCMinutes d = (case d of None \<Rightarrow> JNaN | Some t \<Rightarrow> JNum (MinFromTime t))"

definition getUTCHours :: "date \<Rightarrow> jsval" where
  "getUTCHours d = (case d of None \<Rightarrow> JNaN | Some t \<Rightarrow> JNum (HourFromTime t))"

definition getUTCDate :: "date \<Rightarrow> jsval" where
  "getUTCDate d = (case d of None \<Rightarrow> JNaN | Some t \<Rightarrow> JNum (DateFromTime t))"

definition getUTCMonth :: "date \<Rightarrow> jsval" where
  "getUTCMonth d = (case d of None \<Rightarrow> JNaN | Some t \<Rightarrow> JNum (MonthFromTime t))"

definition getUTCFullYear :: "date \<Rightarrow> jsval" where
  "getUTCFullYear d = (case d of None \<Rightarrow> JNaN | Some t \<Rightarrow> JNum (YearFromTime t))"

text \<open>\<open>x + 1\<close> on the result of a getter: a number, or \<open>NaN\<close>, which stays \<open>NaN\<close>.\<close>

fun js_succ :: "jsval \<Rightarrow> jsval" where
  "js_succ (JNum n) = JNum (n + 1)"
| "js_succ v = JNaN"

section \<open>The schedule builder (lib/utils.js)\<close>

record cron =
  minute :: jsval
  hour :: jsval
  dayOfMonth :: jsval
  month :: jsval
  dayOfWeek :: jsval
  year :: jsval

definition cron_expression :: "cron \<Rightarrow> string" where
  "cron_expression c =
     ''cron('' @ to_string (minute c) @ '' '' @ to_string (hour c) @ '' '' @
     to_string (dayOfMonth c) @ '' '' @ to_string (month c) @ '' '' @
     to_string (dayOfWeek c) @ '' '' @ to_string (year c) @ '')''"

definition conflict_message :: string where
  "conflict_message =
     ''The `day` and `weekDay` properties of the schedule can not be set together''"

definition end_format_message :: string where
  "end_format_message =
     ''Schedule `end` date format is invalid. Please, use ISO format (YYYY-MM-DD or YYYY-MM-DD HH:MM)''"

text \<open>The \<open>only once\<close> test of the source: none of the six fields is truthy.\<close>

definition no_fields :: "obj \<Rightarrow> bool" where
  "no_fields schedule =
     (\<not> truthy (obj_get schedule ''minute'') \<and> \<not> truthy (obj_get schedule ''hour'') \<and>
      \<not> truthy (obj_get schedule ''day'') \<and> \<not> truthy (obj_get schedule ''month'') \<and>
      \<not> truthy (obj_get schedule ''weekDay'') \<and> \<not> truthy (obj_get schedule ''year''))"

definition default_cron :: "env \<Rightarrow> int \<Rightarrow> cron" where
  "default_cron env delay =
     (let date = TimeClip (now env + delay * 1000) in
      \<lparr> minute = getUTCMinutes date,
        hour = getUTCHours date,
        dayOfMonth = getUTCDate date,
        month = js_succ (getUTCMonth date),
        dayOfWeek = JStr ''?'',
        year = getUTCFullYear date \<rparr>)"

definition explicit_cron :: "obj \<Rightarrow> cron" where
  "explicit_cron schedule =
     (let weekDay = obj_get schedule ''weekDay'';
          workingDays = obj_get schedule ''workingDays'';
          dayOfMonth = js_or (obj_get schedule ''day'')
            (if truthy (js_or weekDay workingDays) then JStr ''?'' else JStr ''*'')
      in
      \<lparr> minute = js_or (obj_get schedule ''minute'') (JStr ''0''),
        hour = js_or (obj_get schedule ''hour'') (JStr ''11''),
        dayOfMonth = dayOfMonth,
        month = js_or (obj_get schedule ''month'') (JStr ''*''),
        dayOfWeek = js_or weekDay
          (if truthy workingDays then JStr ''MON-FRI''
           else if dayOfMonth \<noteq> JStr ''?'' then JStr ''?'' else JStr ''*''),
        year = js_or (obj_get schedule ''year'') (JStr ''*'') \<rparr>)"

text \<open>
  \<open>cronBuilder(schedule, delay)\<close>. The source writes \<open>end\<close>, \<open>once\<close> and
  \<open>expression\<close> into the schedule object it was given and returns that object; the value
  returned here is the content of the object at the return. Both throws come before the
  first write.
\<close>

definition cronBuilder :: "env \<Rightarrow> obj \<Rightarrow> int \<Rightarrow> error + obj" where
  "cronBuilder env schedule delay =
     (let day = obj_get schedule ''day'';
          weekDay = obj_get schedule ''weekDay'';
          workingDays = obj_get schedule ''workingDays'';
          end = obj_get schedule ''end''
      in
      if truthy day \<and> (truthy weekDay \<or> truthy workingDays) then Inl (Error conflict_message)
      else if truthy end \<and> new_Date env end = None then Inl (TypeError end_format_message)
      else
        let schedule1 =
              (if truthy end then obj_set ''end'' (JNum (the (new_Date env end))) schedule
               else schedule);
            schedule2 =
              (if no_fields schedule then obj_set ''once'' (JBool True) schedule1
               else schedule1);
            cron = (if no_fields schedule then default_cron env delay
                    else explicit_cron schedule)
        in Inr (obj_set ''expression'' (JStr (cron_expression cron)) schedule2))"

section \<open>Payload validation and sanitization (lib/utils.js)\<close>

subsection \<open>Phone numbers\<close>

definition isDigit :: "char \<Rightarrow> bool" where
  "isDigit c = (c \<in> set ''0123456789'')"

text \<open>\<open>/^\+[1-9]\d{1,14}$/.test(s)\<close>: a plus, one digit from 1 to 9, then between one and
  fourteen digits up to the end of the string.\<close>

fun phoneRegex_test :: "string \<Rightarrow> bool" where
  "phoneRegex_test (c0 # c1 # rest) =
     (c0 = CHR ''+'' \<and> c1 \<in> set ''123456789'' \<and>
      list_all isDigit rest \<and> 1 \<le> length rest \<and> length rest \<le> 14)"
| "phoneRegex_test s = False"

text \<open>\<open>sanitizePhone(phone, param)\<close>. \<open>phone.replace(/\D/g, '')\<close> keeps the digits; a value
  that is not a string has no \<open>replace\<close> method.\<close>

fun sanitizePhone :: "jsval \<Rightarrow> string \<Rightarrow> error + string" where
  "sanitizePhone (JStr phone) param =
     (let phoneNumbers = filter isDigit phone;
          sanitizedPhone = CHR ''+'' # phoneNumbers
      in if \<not> phoneRegex_test sanitizedPhone
         then Inl (Error (''Invalid phone in `'' @ param @ ''` param''))
         else Inr sanitizedPhone)"
| "sanitizePhone v param = Inl (TypeError ''phone.replace is not a function'')"

subsection \<open>SMS\<close>






subsection \<open>Email\<close>

text \<open>\<open>encode\<close> of the html-entities package with its default options: the five special
  characters become named entities, every other character is kept.\<close>

definition encode_char :: "char \<Rightarrow> string" where
  "encode_char c =
     (if c = CHR ''<'' then ''&lt;'' else if c = CHR ''>'' then ''&gt;''
      else if c = CHR 0x27 then ''&apos;'' else if c = CHR 0x22 then ''&quot;''
      else if c = CHR ''&'' then ''&amp;'' else [c])"





definition destination_required :: string where
  "destination_required =
     ''Email destination is required. Please, send at least one of these properties: `to`, `cc` or `bcc`''"

definition from_required :: string where
  "from_required = ''Email source is required. Send a `from` value''"

definition subject_required :: string where
  "subject_required = ''Email `subject` is required''"

definition body_required :: string where
  "body_required = ''Email `body` is required''"

text \<open>The two \<open>forEach\<close> loops, over \<open>strings\<close> and over \<open>arrayStrings\<close>.\<close>

fun check_strings :: "obj \<Rightarrow> string list \<Rightarrow> error option" where
  "check_strings email [] = None"
| "check_strings email (v # vs) =
     (if truthy (obj_get email v) \<and> \<not> isString (obj_get email v)
      then Some (TypeError (''Expected email param `'' @ v @ ''` to be a string''))
      else check_strings email vs)"

fun sanitize_arrayStrings :: "obj \<Rightarrow> string list \<Rightarrow> obj \<Rightarrow> error + obj" where
  "sanitize_arrayStrings email [] sanitizedValues = Inr sanitizedValues"
| "sanitize_arrayStrings email (v # vs) sanitizedValues =
     (if truthy (obj_get email v) \<and> isString (obj_get email v)
      then sanitize_arrayStrings email vs (obj_set v (JArr [obj_get email v]) sanitizedValues)
      else if truthy (obj_get email v) \<and> \<not> isArrayOfStrings (obj_get email v)
      then Inl (TypeError (''Expected email param `'' @ v @ ''` to be a string or an array of strings''))
      else sanitize_arrayStrings email vs sanitizedValues)"

text \<open>The checks shared by \<open>validateAndSanitizeEmailData\<close> and the older
  \<open>sanitizeEmailData\<close>: the first violated one throws.\<close>

definition email_checks :: "obj \<Rightarrow> error option" where
  "email_checks email =
     (if \<not> truthy (obj_get email ''to'') \<and> \<not> truthy (obj_get email ''cc'') \<and>
         \<not> truthy (obj_get email ''bcc'') then Some (Error destination_required)
      else if \<not> truthy (obj_get email ''from'') then Some (Error from_required)
      else if \<not> truthy (obj_get email ''subject'') then Some (Error subject_required)
      else if \<not> truthy (obj_get email ''body'') then Some (Error body_required)
      else if truthy (obj_get email ''template'') \<and> \<not> isObject (obj_get email ''body'')
        then Some (TypeError ''Expected email param `body` to be a Object on html email'')
      else if \<not> truthy (obj_get email ''template'') \<and> \<not> isString (obj_get email ''body'')
        then Some (TypeError ''Expected email param `body` to be a string on text email'')
      else check_strings email [''from'', ''subject'', ''template''])"


section \<open>The notifier module and the utils module it requires\<close>

subsection \<open>JSON.stringify\<close>

definition hex_digit :: "nat \<Rightarrow> char" where
  "hex_digit n = ''0123456789abcdef'' ! (n mod 16)"

text \<open>\<open>QuoteJSONString\<close>: the quote and the backslash are escaped, control characters
  take their short escape or \<open>\u00xx\<close>.\<close>

definition json_escape :: "char \<Rightarrow> string" where
  "json_escape c =
     (if c = CHR 0x08 then [CHR 0x5C, CHR ''b'']
      else if c = CHR 0x09 then [CHR 0x5C, CHR ''t'']
      else if c = CHR 0x0A then [CHR 0x5C, CHR ''n'']
      else if c = CHR 0x0C then [CHR 0x5C, CHR ''f'']
      else if c = CHR 0x0D then [CHR 0x5C, CHR ''r'']
      else if c = CHR 0x22 then [CHR 0x5C, CHR 0x22]
      else if c = CHR 0x5C then [CHR 0x5C, CHR 0x5C]
      else if (of_char c :: nat) < 32
        then [CHR 0x5C, CHR ''u'', CHR ''0'', CHR ''0'',
              hex_digit ((of_char c :: nat) div 16), hex_digit (of_char c)]
      else [c])"

definition json_quote :: "string \<Rightarrow> string" where
  "json_quote s = CHR 0x22 # concat (map json_escape s) @ [CHR 0x22]"

text \<open>\<open>JSON.stringify(value)\<close>; \<open>None\<close> is the result \<open>undefined\<close>. In an array an
  \<open>undefined\<close> element is written \<open>null\<close>, in an object a property whose value is
  \<open>undefined\<close> is left out.\<close>

fun json_stringify :: "jsval \<Rightarrow> string option"
  and json_elements :: "jsval list \<Rightarrow> string list"
  and json_members :: "(string \<times> jsval) list \<Rightarrow> string list" where
  "json_stringify JUndefined = None"
| "json_stringify JNull = Some ''null''"
| "json_stringify (JBool b) = Some (if b then ''true'' else ''false'')"
| "json_stringify (JNum n) = Some (show_int n)"
| "json_stringify JNaN = Some ''null''"
| "json_stringify (JStr s) = Some (json_quote s)"
| "json_stringify (JArr xs) = Some (''['' @ join '','' (json_elements xs) @ '']'')"
| "json_stringify (JObj kvs) = Some (''{'' @ join '','' (json_members kvs) @ ''}'')"
| "json_elements [] = []"
| "json_elements (v # vs) =
     (case json_stringify v of None \<Rightarrow> ''null'' | Some s \<Rightarrow> s) # json_elements vs"
| "json_members [] = []"
| "json_members ((k, v) # kvs) =
     (case json_stringify v of
        None \<Rightarrow> json_members kvs
      | Some s \<Rightarrow> (json_quote k @ '':'' @ s) # json_members kvs)"

text \<open>The number of bytes of a string on the wire (UTF-8): a code unit from 128 on takes
  two bytes.\<close>

definition utf8_length :: "string \<Rightarrow> nat" where
  "utf8_length s = sum_list (map (\<lambda>c. if (of_char c :: nat) < 128 then 1 else 2) s)"

subsection \<open>State and configuration\<close>

record config =
  api :: jsval
  app :: jsval
  templateBucket :: jsval

record notifier =
  delay :: int
  config :: config

text \<open>\<open>new Notifier()\<close>; the three parameters are the values of the environment variables
  \<open>NOTIFIER_API_URL\<close>, \<open>NOTIFIER_APP_NAME\<close> and \<open>NOTIFIER_TEMPLATE_BUCKET\<close>.\<close>

definition Notifier :: "jsval \<Rightarrow> jsval \<Rightarrow> jsval \<Rightarrow> notifier" where
  "Notifier env_api env_app env_bucket =
     \<lparr> delay = 120,
       config = \<lparr> api = env_api, app = env_app, templateBucket = env_bucket \<rparr> \<rparr>"

text \<open>
  \<open>configure(config)\<close>. The argument object is given by its \<open>api\<close>, \<open>app\<close> and
  \<open>templateBucket\<close> properties (\<open>undefined\<close> when absent) and by its \<open>delay\<close>, a Number,
  \<open>None\<close> when the property is absent. \<open>!config.delay\<close> holds of an absent delay and of 0.
\<close>

definition configure :: "notifier \<Rightarrow> config \<Rightarrow> int option \<Rightarrow> notifier" where
  "configure this c config_delay =
     \<lparr> delay =
         (case config_delay of
            None \<Rightarrow> delay this
          | Some d \<Rightarrow> if d = 0 then delay this else if d > 120 then d else 120),
       config =
         \<lparr> api = js_or (api c) (api (config this)),
           app = js_or (app c) (app (config this)),
           templateBucket = js_or (templateBucket c) (templateBucket (config this)) \<rparr> \<rparr>"

text \<open>\<open>validateConfig(config, ignore)\<close>: the first key, in the order of the object, whose
  value is falsy and that is not ignored.\<close>

fun validate_keys :: "(string \<times> jsval) list \<Rightarrow> string list \<Rightarrow> error option" where
  "validate_keys [] ignore = None"
| "validate_keys ((key, v) # kvs) ignore =
     (if \<not> truthy v \<and> key \<notin> set ignore
      then Some (Error (''The `'' @ key @ ''` property must be set on configure function''))
      else validate_keys kvs ignore)"

definition validateConfig :: "config \<Rightarrow> string list \<Rightarrow> error option" where
  "validateConfig c ignore =
     validate_keys [(''api'', api c), (''app'', app c), (''templateBucket'', templateBucket c)] ignore"

subsection \<open>Sending\<close>

text \<open>\<open>s.split(sep)\<close> for a separator that is not empty.\<close>

fun split_from :: "string \<Rightarrow> string \<Rightarrow> string \<Rightarrow> string list" where
  "split_from sep cur [] = [rev cur]"
| "split_from sep cur (c # cs) =
     (if sep \<noteq> [] \<and> take (length sep) (c # cs) = sep
      then rev cur # split_from sep [] (drop (length sep - 1) cs)
      else split_from sep (c # cur) cs)"

definition split :: "string \<Rightarrow> string \<Rightarrow> string list" where
  "split s sep = split_from sep [] s"

text \<open>\<open>n / 1000\<close> as the template literal prints it: the decimal expansion, without
  trailing zeros.\<close>

definition show_thousandths :: "nat \<Rightarrow> string" where
  "show_thousandths n =
     show_nat (n div 1000) @
     (if n mod 1000 = 0 then []
      else if n mod 100 = 0 then CHR ''.'' # show_nat (n mod 1000 div 100)
      else if n mod 10 = 0
        then CHR ''.'' # show_nat (n mod 1000 div 100) @ show_nat (n mod 100 div 10)
      else CHR ''.'' # show_nat (n mod 1000 div 100) @ show_nat (n mod 100 div 10)
             @ show_nat (n mod 10))"

definition size_message :: "nat \<Rightarrow> string" where
  "size_message n =
     ''The size of your data object is more than 256kb (is '' @ show_thousandths n @
     ''kb), unfortunately we can not create notifications of this size''"

text \<open>What \<open>_send\<close> hands to the signed transport.\<close>

record request =
  url :: string
  hostname :: string
  path :: string
  body :: string

text \<open>\<open>_send(data, config)\<close>, up to the call of the transport.\<close>

definition send :: "obj \<Rightarrow> config \<Rightarrow> error + request" where
  "send data c =
     (case json_stringify (JObj data) of
        None \<Rightarrow> Inl (TypeError ''Cannot read properties of undefined (reading length)'')
      | Some stringData \<Rightarrow>
         if length stringData > 256000 then Inl (Error (size_message (length stringData)))
         else
           (case api c of
              JStr a \<Rightarrow>
                (let urlWithoutProtocol = last (split a ''//'') in
                 Inr \<lparr> url = a,
                       hostname = hd (split urlWithoutProtocol ''/''),
                       path = CHR ''/'' # join ''/'' (tl (split urlWithoutProtocol ''/'')),
                       body = stringData \<rparr>)
            | v \<Rightarrow> Inl (TypeError ''config.api.split is not a function'')))"

subsection \<open>Objects of the caller\<close>

text \<open>
  The operations write into objects their caller holds. A heap maps the address of such an
  object to its content; an operation takes the heap and returns the heap it leaves. The
  objects nested in a notification (its email, its schedule) are part of its content, so a
  write into the schedule of a notification shows as a new content of the notification; one
  schedule object shared by two notifications is outside the model. The operations of the
  notifier are asynchronous in the source; here a rejection is an error result.
\<close>

type_synonym heap = "nat \<Rightarrow> obj option"

definition not_an_object :: error where
  "not_an_object = TypeError ''Cannot read properties of undefined''"

text \<open>\<open>cronBuilder\<close> on a schedule object of the caller: the object at the address is
  updated and the same address is returned.\<close>

definition cronBuilder_at :: "env \<Rightarrow> heap \<Rightarrow> nat \<Rightarrow> int \<Rightarrow> (error + nat) \<times> heap" where
  "cronBuilder_at env h a dl =
     (case h a of
        None \<Rightarrow> (Inl not_an_object, h)
      | Some schedule \<Rightarrow>
         (case cronBuilder env schedule dl of
            Inl e \<Rightarrow> (Inl e, h)
          | Inr schedule' \<Rightarrow> (Inr a, h(a \<mapsto> schedule'))))"

text \<open>The named properties of a value: a primitive or an array has none of those the
  sources read.\<close>

fun props :: "jsval \<Rightarrow> obj" where
  "props (JObj kvs) = kvs"
| "props v = []"

text \<open>\<open>sanitizeEmailData(email)\<close> of the utils module the notifier requires: the checks of
  \<open>validateAndSanitizeEmailData\<close>, without the encoding of the body.\<close>

definition sanitizeEmailData :: "jsval \<Rightarrow> error + obj" where
  "sanitizeEmailData email =
     (if \<not> truthy email then Inl (Error ''The `email` object property is required'')
      else
        (case email_checks (props email) of
           Some e \<Rightarrow> Inl e
         | None \<Rightarrow>
            (case sanitize_arrayStrings (props email) [''to'', ''cc'', ''bcc'', ''replyTo''] [] of
               Inl e \<Rightarrow> Inl e
             | Inr parsedValues \<Rightarrow> Inr (obj_assign (obj_assign [] (props email)) parsedValues))))"

text \<open>
  \<open>_putNotification(data)\<close>, with \<open>data\<close> the object at address \<open>a\<close>. The record that
  is sent, \<open>validatedData\<close>, is a copy; the schedule in it is the caller's own schedule
  object, which \<open>cronBuilder\<close> updates, unless the caller gave none. A schedule that is
  not a plain object has none of the properties read and takes no write.
\<close>

definition putNotification :: "env \<Rightarrow> notifier \<Rightarrow> heap \<Rightarrow> nat \<Rightarrow> (error + request) \<times> heap" where
  "putNotification env this h a =
     (case h a of
        None \<Rightarrow> (Inl not_an_object, h)
      | Some data \<Rightarrow>
         (case validateConfig (config this) [] of
            Some e \<Rightarrow> (Inl e, h)
          | None \<Rightarrow>
             (case sanitizeEmailData (obj_get data ''email'') of
                Inl e \<Rightarrow> (Inl e, h)
              | Inr email \<Rightarrow>
                 (let validatedData = obj_assign (obj_assign [] data) [(''email'', JObj email)] in
                  if obj_get validatedData ''operation'' = JStr ''UPDATE'' \<and>
                     \<not> truthy (obj_get validatedData ''id'')
                  then (Inl (Error ''Update method parameters must have an id''), h)
                  else
                    (case (if truthy (obj_get email ''template'')
                           then buildTemplate env (templateBucket (config this))
                                  (obj_get email ''template'') (obj_get email ''body'')
                           else None) of
                       Some e \<Rightarrow> (Inl e, h)
                     | None \<Rightarrow>
                        (let validatedData1 =
                               obj_set ''templateBucket'' (templateBucket (config this))
                                 (obj_set ''app'' (app (config this)) validatedData);
                             schedule = obj_get validatedData1 ''schedule''
                         in
                         if \<not> truthy schedule then
                           (case cronBuilder env [] (delay this) of
                              Inl e \<Rightarrow> (Inl e, h)
                            | Inr s \<Rightarrow>
                               (send (obj_set ''schedule'' (JObj s) validatedData1) (config this), h))
                         else
                           (case schedule of
                              JObj s0 \<Rightarrow>
                                (case cronBuilder env s0 (delay this) of
                                   Inl e \<Rightarrow> (Inl e, h)
                                 | Inr s \<Rightarrow>
                                    (send (obj_set ''schedule'' (JObj s) validatedData1) (config this),
                                     h(a \<mapsto> obj_set ''schedule'' (JObj s) data)))
                            | v \<Rightarrow> (send validatedData1 (config this), h))))))))"

definition create :: "env \<Rightarrow> notifier \<Rightarrow> heap \<Rightarrow> nat \<Rightarrow> (error + request) \<times> heap" where
  "create env this h a =
     (case h a of
        None \<Rightarrow> (Inl not_an_object, h)
      | Some data \<Rightarrow>
         putNotification env this (h(a \<mapsto> obj_set ''operation'' (JStr ''CREATE'') data)) a)"





section \<open>Notions used in the statements\<close>

text \<open>A host for the examples: the clock reads \<open>t\<close>, dates are parsed by
  \<open>parse_date_only\<close>, templates build.\<close>

definition example_host :: "int \<Rightarrow> env" where
  "example_host t = \<lparr> now = t, date_parse = parse_date_only, buildTemplate = (\<lambda>b n p. None) \<rparr>"

text \<open>
  The calendar reading of an instant: \<open>t\<close> lies in minute \<open>mi\<close> of hour \<open>h\<close> of day \<open>d\<close>
  of month \<open>mo\<close> (from 1) of year \<open>y\<close>, UTC.
\<close>

definition utc_minute :: "int \<Rightarrow> int \<Rightarrow> int \<Rightarrow> int \<Rightarrow> int \<Rightarrow> int \<Rightarrow> bool" where
  "utc_minute t y mo d h mi =
     (1 \<le> mo \<and> mo \<le> 12 \<and> 1 \<le> d \<and>
      month_start y (nat (mo - 1)) + d \<le> month_start y (nat mo) \<and>
      0 \<le> h \<and> h < 24 \<and> 0 \<le> mi \<and> mi < 60 \<and>
      msPerDay * (month_start y (nat (mo - 1)) + d - 1) + msPerHour * h + msPerMinute * mi \<le> t \<and>
      t < msPerDay * (month_start y (nat (mo - 1)) + d - 1) + msPerHour * h + msPerMinute * mi
            + msPerMinute)"


text \<open>The characters \<open>encode\<close> rewrites.\<close>

definition special :: "char \<Rightarrow> bool" where
  "special c = (c \<in> set [CHR ''<'', CHR ''>'', CHR 0x27, CHR 0x22, CHR ''&''])"




text \<open>A sequence of \<open>configure\<close> calls, each given by its options and its delay.\<close>

definition configure_all :: "notifier \<Rightarrow> (config \<times> int option) list \<Rightarrow> notifier" where
  "configure_all this calls = fold (\<lambda>(c, d) n. configure n c d) calls this"

text \<open>A record with a text of 200000 letters \<open>e\<close> with acute accent (U+00E9: one code
  unit, two bytes in UTF-8), and its serialized form.\<close>

definition accented_record :: obj where
  "accented_record = [(''id'', JStr ''n1''), (''text'', JStr (replicate 200000 (CHR 0xE9)))]"

definition accented_json :: string where
  "accented_json =
     [CHR ''{'', CHR 0x22, CHR ''i'', CHR ''d'', CHR 0x22, CHR '':'', CHR 0x22, CHR ''n'', CHR ''1'',
      CHR 0x22, CHR '','', CHR 0x22, CHR ''t'', CHR ''e'', CHR ''x'', CHR ''t'', CHR 0x22, CHR '':'',
      CHR 0x22] @ replicate 200000 (CHR 0xE9) @ [CHR 0x22, CHR ''}'']"






section \<open>Verified properties\<close>

subsection \<open>The year search terminates\<close>

text \<open>A year has 365 or 366 days, so the years start at increasing days and the search
  for the year of a day stops.\<close>

lemma div_succ:
  fixes a n :: int
  assumes "0 < n"
  shows "(a + 1) div n = a div n + (if (a + 1) mod n = 0 then 1 else 0)"
proof -
  define q where "q = a div n"
  define r where "r = a mod n"
  have a: "a = n * q + r" by (simp add: q_def r_def)
  have r: "0 \<le> r" "r < n" using assms by (simp_all add: r_def)
  show ?thesis
  proof (cases "r + 1 = n")
    case True
    then have e: "a + 1 = n * (q + 1) + 0" using a by (simp add: algebra_simps)
    have "(a + 1) div n = q + 1" using assms by (rule_tac int_div_pos_eq[OF e]) simp_all
    moreover have "(a + 1) mod n = 0" using assms by (rule_tac int_mod_pos_eq[OF e]) simp_all
    ultimately show ?thesis by (simp add: q_def)
  next
    case False
    then have lt: "r + 1 < n" using r by simp
    have e: "a + 1 = n * q + (r + 1)" using a by simp
    have "(a + 1) div n = q" using r lt by (rule_tac int_div_pos_eq[OF e]) simp_all
    moreover have "(a + 1) mod n = r + 1" using r lt by (rule_tac int_mod_pos_eq[OF e]) simp_all
    ultimately show ?thesis using r by (simp add: q_def)
  qed
qed

lemma mod_shift:
  fixes y k n :: int
  assumes "k mod n = 0"
  shows "(y - k) mod n = 0 \<longleftrightarrow> y mod n = 0"
  using assms by (metis diff_zero mod_diff_right_eq)

lemma div_succ_at:
  fixes y k n :: int
  assumes "0 < n" and "k mod n = 0"
  shows "(y - k) div n = (y - k - 1) div n + (if y mod n = 0 then 1 else 0)"
proof -
  have e: "(y - k - 1) + 1 = y - k" by simp
  from div_succ [OF assms(1), of "y - k - 1"] show ?thesis
    unfolding e using mod_shift [OF assms(2), of y] by simp
qed

lemma DayFromYear_step: "DayFromYear (y + 1) = DayFromYear y + DaysInYear y"
proof -
  define A where "A = (y - 1969) div 4"
  define B where "B = (y - 1901) div 100"
  define C where "C = (y - 1601) div 400"
  define p where "p = (y mod 4 = 0)"
  define q where "q = (y mod 100 = 0)"
  define r where "r = (y mod 400 = 0)"
  have a: "(y + 1 - 1969) div 4 = A + (if p then 1 else 0)"
    unfolding A_def p_def using div_succ_at [of 4 1968 y] by simp
  have b: "(y + 1 - 1901) div 100 = B + (if q then 1 else 0)"
    unfolding B_def q_def using div_succ_at [of 100 1900 y] by simp
  have c: "(y + 1 - 1601) div 400 = C + (if r then 1 else 0)"
    unfolding C_def r_def using div_succ_at [of 400 1600 y] by simp
  have d: "q \<Longrightarrow> p"
    unfolding p_def q_def using mod_mod_cancel [of 4 100 y] by simp
  have e: "r \<Longrightarrow> q"
    unfolding q_def r_def using mod_mod_cancel [of 100 400 y] by simp
  have l: "DayFromYear (y + 1) =
      365 * (y + 1 - 1970) + (A + (if p then 1 else 0)) - (B + (if q then 1 else 0))
        + (C + (if r then 1 else 0))"
    unfolding DayFromYear_def a b c ..
  have m: "DayFromYear y = 365 * (y - 1970) + A - B + C"
    unfolding DayFromYear_def A_def B_def C_def ..
  have n: "DaysInYear y = (if \<not> p then 365 else if \<not> q then 366 else if \<not> r then 365 else 366)"
    unfolding DaysInYear_def p_def q_def r_def ..
  show ?thesis unfolding l m n using d e by (cases p; cases q; cases r) simp_all
qed

lemma DayFromYear_less: "DayFromYear y < DayFromYear (y + 1)"
proof -
  have "0 < DaysInYear y" unfolding DaysInYear_def by (simp split: if_splits)
  then show ?thesis unfolding DayFromYear_step by simp
qed

termination year_up
proof (relation "measure (\<lambda>(d, y). nat (d + 1 - DayFromYear (y + 1)))")
  show "wf (measure (\<lambda>(d, y). nat (d + 1 - DayFromYear (y + 1))))" by simp
next
  fix d y :: int
  assume "DayFromYear (y + 1) \<le> d"
  moreover have "DayFromYear (y + 1) < DayFromYear (y + 1 + 1)" by (rule DayFromYear_less)
  ultimately show "((d, y + 1), (d, y)) \<in> measure (\<lambda>(d, y). nat (d + 1 - DayFromYear (y + 1)))"
    by simp
qed

declare year_up.simps [simp del]

lemma obj_get_set: "obj_get (obj_set k v ob) k' = (if k' = k then v else obj_get ob k')"
  by (induction ob) auto

subsection \<open>The schedule builder\<close>

text \<open>
  C1. A schedule whose \<open>day\<close> is set together with \<open>weekDay\<close> or \<open>workingDays\<close> (set:
  truthy, as the source tests it) is rejected with the conflict error, whatever the rest
  of the schedule, the host and the delay are: the test comes first, so an \<open>end\<close> that does
  not parse is not looked at, and the schedule object of the caller is left as it was.
\<close>

theorem cronBuilder_conflict:
  assumes "truthy (obj_get schedule ''day'')"
    and "truthy (obj_get schedule ''weekDay'') \<or> truthy (obj_get schedule ''workingDays'')"
  shows "cronBuilder env schedule dl = Inl (Error conflict_message) \<and>
         cronBuilder_at env (h(a \<mapsto> schedule)) a dl = (Inl (Error conflict_message), h(a \<mapsto> schedule))"
proof -
  have "cronBuilder env schedule dl = Inl (Error conflict_message)"
    using assms by (simp add: cronBuilder_def)
  then show ?thesis by (simp add: cronBuilder_at_def)
qed

theorem cronBuilder_conflict_witness:
  "truthy (obj_get [(''day'', JStr ''16''), (''workingDays'', JBool True), (''end'', JStr ''soon'')] ''day'') \<and>
   truthy (obj_get [(''day'', JStr ''16''), (''workingDays'', JBool True), (''end'', JStr ''soon'')] ''workingDays'') \<and>
   new_Date (example_host 0) (JStr ''soon'') = None \<and>
   cronBuilder (example_host 0)
     [(''day'', JStr ''16''), (''workingDays'', JBool True), (''end'', JStr ''soon'')] 120 =
   Inl (Error ''The `day` and `weekDay` properties of the schedule can not be set together'')"
  using cronBuilder_conflict [of "[(''day'', JStr ''16''), (''workingDays'', JBool True), (''end'', JStr ''soon'')]"
      "example_host 0" 120 Map.empty 0]
  by (simp add: conflict_message_def example_host_def parse_date_only_def)

text \<open>C3. The README's schedule \<open>{day: '16', hour: '22'}\<close> with delay 120: the minute
  defaults to 0, month and year to \<open>*\<close>, and the day of the week is \<open>?\<close>.\<close>

theorem cronBuilder_day16_hour22:
  "\<exists>s. cronBuilder env [(''day'', JStr ''16''), (''hour'', JStr ''22'')] 120 = Inr s \<and>
       obj_get s ''expression'' = JStr ''cron(0 22 16 * ? *)''"
  by (simp add: cronBuilder_def no_fields_def explicit_cron_def cron_expression_def js_or_def)

theorem cronBuilder_day16_hour22_witness:
  "cronBuilder (example_host 0) [(''day'', JStr ''16''), (''hour'', JStr ''22'')] 120 =
   Inr [(''day'', JStr ''16''), (''hour'', JStr ''22''), (''expression'', JStr ''cron(0 22 16 * ? *)'')]"
  using cronBuilder_day16_hour22 [of "example_host 0"]
  by (simp add: cronBuilder_def no_fields_def explicit_cron_def cron_expression_def js_or_def)

text \<open>
  C4, as the code has it. In an accepted schedule \<open>once\<close> is \<open>true\<close> when none of the six
  fields is set; when one is set the builder does not touch \<open>once\<close>, which keeps the value
  the caller gave it (the README's "December 25th, just once" sets it).
\<close>

theorem cronBuilder_once:
  assumes "cronBuilder env schedule dl = Inr s"
  shows "obj_get s ''once'' = (if no_fields schedule then JBool True else obj_get schedule ''once'')"
  using assms by (auto simp: cronBuilder_def Let_def obj_get_set split: if_splits)

theorem cronBuilder_once_witness:
  "cronBuilder (example_host 0) [(''hour'', JStr ''18''), (''workingDays'', JBool True)] 120 =
     Inr [(''hour'', JStr ''18''), (''workingDays'', JBool True),
          (''expression'', JStr ''cron(0 18 ? * MON-FRI *)'')] \<and>
   \<not> no_fields [(''hour'', JStr ''18''), (''workingDays'', JBool True)] \<and>
   obj_get [(''hour'', JStr ''18''), (''workingDays'', JBool True),
            (''expression'', JStr ''cron(0 18 ? * MON-FRI *)'')] ''once'' = JUndefined"
proof -
  have r: "cronBuilder (example_host 0) [(''hour'', JStr ''18''), (''workingDays'', JBool True)] 120 =
     Inr [(''hour'', JStr ''18''), (''workingDays'', JBool True),
          (''expression'', JStr ''cron(0 18 ? * MON-FRI *)'')]"
    by (simp add: cronBuilder_def no_fields_def explicit_cron_def cron_expression_def js_or_def)
  show ?thesis using cronBuilder_once [OF r] r by (simp add: no_fields_def)
qed

text \<open>The README's schedule for December 25th: three fields are set and \<open>once\<close> is
  \<open>true\<close> in the result, because the caller set it.\<close>

theorem cronBuilder_once_supplied:
  "\<not> no_fields [(''hour'', JStr ''0''), (''day'', JStr ''25''), (''month'', JStr ''DEC''),
                (''once'', JBool True)] \<and>
   cronBuilder (example_host 0)
     [(''hour'', JStr ''0''), (''day'', JStr ''25''), (''month'', JStr ''DEC''), (''once'', JBool True)] 120 =
   Inr [(''hour'', JStr ''0''), (''day'', JStr ''25''), (''month'', JStr ''DEC''),
        (''once'', JBool True), (''expression'', JStr ''cron(0 0 25 DEC ? *)'')]"
  by (simp add: cronBuilder_def no_fields_def explicit_cron_def cron_expression_def js_or_def)

subsection \<open>Phone numbers\<close>

lemma filter_isDigit_all: "list_all isDigit (filter isDigit s)"
  by (simp add: list_all_iff)

lemma nonzero_digit: "isDigit c \<Longrightarrow> c \<in> set ''123456789'' \<longleftrightarrow> c \<noteq> CHR ''0''"
  by (auto simp: isDigit_def)

lemma phoneRegex_test_digits:
  assumes "list_all isDigit ds"
  shows "phoneRegex_test (CHR ''+'' # ds) \<longleftrightarrow> 2 \<le> length ds \<and> length ds \<le> 15 \<and> hd ds \<noteq> CHR ''0''"
proof (cases ds)
  case Nil
  then show ?thesis by simp
next
  case (Cons c rest)
  with assms have "isDigit c" "list_all isDigit rest" by simp_all
  then show ?thesis using Cons nonzero_digit [of c] by auto
qed

text \<open>
  C5, as the code has it. \<open>sanitizePhone\<close> keeps the digits of its input in their order
  and puts a plus before them; it succeeds exactly when the result matches the pattern, that
  is when there are between 2 and 15 digits and the first is not 0, and fails otherwise with
  the error that names the parameter. The number \<open>55 (48) 99875-4321\<close> has thirteen digits
  and all of them are kept.
\<close>

theorem sanitizePhone_digits:
  "sanitizePhone (JStr phone) param =
     (if 2 \<le> length (filter isDigit phone) \<and> length (filter isDigit phone) \<le> 15 \<and>
         hd (filter isDigit phone) \<noteq> CHR ''0''
      then Inr (CHR ''+'' # filter isDigit phone)
      else Inl (Error (''Invalid phone in `'' @ param @ ''` param''))) \<and>
   sanitizePhone (JStr ''55 (48) 99875-4321'') param = Inr ''+5548998754321''"
proof -
  have a: "sanitizePhone (JStr p) param =
     (if 2 \<le> length (filter isDigit p) \<and> length (filter isDigit p) \<le> 15 \<and>
         hd (filter isDigit p) \<noteq> CHR ''0''
      then Inr (CHR ''+'' # filter isDigit p)
      else Inl (Error (''Invalid phone in `'' @ param @ ''` param'')))" for p
    using phoneRegex_test_digits [OF filter_isDigit_all, of p] by (simp add: Let_def)
  have b: "filter isDigit ''55 (48) 99875-4321'' = ''5548998754321''"
    by (simp add: isDigit_def)
  show ?thesis using a [of phone] a [of "''55 (48) 99875-4321''"] unfolding b by simp
qed

theorem sanitizePhone_digits_witness:
  "sanitizePhone (JStr ''+1 (0) 2'') ''to'' = Inr ''+102'' \<and>
   sanitizePhone (JStr ''0 55 48'') ''phone'' = Inl (Error ''Invalid phone in `phone` param'') \<and>
   sanitizePhone (JStr ''55 (48) 99875-4321'') ''to'' = Inr ''+5548998754321''"
proof -
  have a: "filter isDigit ''+1 (0) 2'' = ''102''" by (simp add: isDigit_def)
  have b: "filter isDigit ''0 55 48'' = ''05548''" by (simp add: isDigit_def)
  show ?thesis
    using sanitizePhone_digits [of "''+1 (0) 2''" "''to''"]
      sanitizePhone_digits [of "''0 55 48''" "''phone''"]
    unfolding a b by simp
qed

text \<open>The result for \<open>55 (48) 99875-4321\<close> is not the twelve-digit \<open>+554899875321\<close>.\<close>

theorem sanitizePhone_readme_number:
  "sanitizePhone (JStr ''55 (48) 99875-4321'') ''to'' = Inr ''+5548998754321'' \<and>
   ''+5548998754321'' \<noteq> ''+554899875321''"
  by (simp add: isDigit_def)

subsection \<open>Required fields\<close>




subsection \<open>Sanitizing an email twice\<close>

lemma encode_char_plain: "\<not> special c \<Longrightarrow> encode_char c = [c]"
  by (simp add: special_def encode_char_def)



lemma length_encode_char: "length (encode_char c) = (if special c then length (encode_char c) else 1)"
  by (simp add: encode_char_plain)

















subsection \<open>The configured delay\<close>

lemma configure_keeps_minimum: "120 \<le> delay this \<Longrightarrow> 120 \<le> delay (configure this c d)"
  by (simp add: configure_def split: option.splits)

lemma configure_all_keeps_minimum: "120 \<le> delay this \<Longrightarrow> 120 \<le> delay (configure_all this calls)"
proof (induction calls arbitrary: this)
  case Nil
  then show ?case by (simp add: configure_all_def)
next
  case (Cons call calls)
  obtain c d where call: "call = (c, d)" by (cases call)
  have "120 \<le> delay (configure this c d)" using Cons.prems by (rule configure_keeps_minimum)
  then have "120 \<le> delay (configure_all (configure this c d) calls)" by (rule Cons.IH)
  then show ?case by (simp add: configure_all_def call)
qed

text \<open>
  C8, as the code has it. After any sequence of \<open>configure\<close> calls on a new notifier the
  delay is at least 120. In one call a delay that is supplied, not 0 and at most 120 sets
  the delay to 120, a delay above 120 is kept, and an absent delay (or the delay 0, which
  the source takes for absent) leaves the delay that is in force: 120 on a new notifier,
  the value of an earlier call otherwise.
\<close>

theorem configure_delay:
  "120 \<le> delay (configure_all (Notifier env_api env_app env_bucket) calls) \<and>
   (n \<noteq> 0 \<and> n \<le> 120 \<longrightarrow> delay (configure this c (Some n)) = 120) \<and>
   (120 < n \<longrightarrow> delay (configure this c (Some n)) = n) \<and>
   delay (configure this c None) = delay this \<and>
   delay (configure this c (Some 0)) = delay this \<and>
   delay (configure (Notifier env_api env_app env_bucket) c None) = 120"
proof -
  have "120 \<le> delay (Notifier env_api env_app env_bucket)" by (simp add: Notifier_def)
  then have "120 \<le> delay (configure_all (Notifier env_api env_app env_bucket) calls)"
    by (rule configure_all_keeps_minimum)
  then show ?thesis by (simp add: configure_def Notifier_def)
qed

theorem configure_delay_witness:
  "delay (configure_all (Notifier JUndefined JUndefined JUndefined)
     [(\<lparr>api = JStr ''https://api'', app = JStr ''app'', templateBucket = JStr ''bucket''\<rparr>, Some 60),
      (\<lparr>api = JUndefined, app = JUndefined, templateBucket = JUndefined\<rparr>, Some 300),
      (\<lparr>api = JUndefined, app = JUndefined, templateBucket = JUndefined\<rparr>, None)]) = 300 \<and>
   delay (configure (Notifier JUndefined JUndefined JUndefined)
     \<lparr>api = JUndefined, app = JUndefined, templateBucket = JUndefined\<rparr> (Some 60)) = 120 \<and>
   delay (configure (Notifier JUndefined JUndefined JUndefined)
     \<lparr>api = JUndefined, app = JUndefined, templateBucket = JUndefined\<rparr> (Some 121)) = 121"
  using configure_delay [of JUndefined JUndefined JUndefined
      "[(\<lparr>api = JStr ''https://api'', app = JStr ''app'', templateBucket = JStr ''bucket''\<rparr>, Some 60),
        (\<lparr>api = JUndefined, app = JUndefined, templateBucket = JUndefined\<rparr>, Some 300),
        (\<lparr>api = JUndefined, app = JUndefined, templateBucket = JUndefined\<rparr>, None)]"
      60 "Notifier JUndefined JUndefined JUndefined"
      "\<lparr>api = JUndefined, app = JUndefined, templateBucket = JUndefined\<rparr>"]
    configure_delay [of JUndefined JUndefined JUndefined "[]"
      121 "Notifier JUndefined JUndefined JUndefined"
      "\<lparr>api = JUndefined, app = JUndefined, templateBucket = JUndefined\<rparr>"]
  by (simp add: configure_all_def configure_def Notifier_def)

text \<open>\<open>configure({delay: 300})\<close> and then \<open>configure({})\<close>: the second call has no delay
  and the delay in force after it is 300, not the default.\<close>

theorem configure_without_delay_keeps_earlier:
  "delay (configure
     (configure (Notifier JUndefined JUndefined JUndefined)
        \<lparr>api = JUndefined, app = JUndefined, templateBucket = JUndefined\<rparr> (Some 300))
     \<lparr>api = JUndefined, app = JUndefined, templateBucket = JUndefined\<rparr> None) = 300"
  by (simp add: configure_def Notifier_def)

subsection \<open>The size guard\<close>

lemma send_size_guard:
  assumes "json_stringify (JObj data) = Some s"
  shows "(\<exists>m. send data c = Inl (Error m)) \<longleftrightarrow> 256000 < length s"
    and "256000 < length s \<Longrightarrow> send data c = Inl (Error (size_message (length s)))"
  using assms by (auto simp: send_def Let_def split: jsval.splits)

lemma concat_replicate_single: "concat (replicate n [c]) = replicate n c"
  by (induction n) simp_all

lemma utf8_length_append: "utf8_length (a @ b) = utf8_length a + utf8_length b"
  by (simp add: utf8_length_def)

lemma utf8_length_replicate:
  "utf8_length (replicate n c) = n * (if (of_char c :: nat) < 128 then 1 else 2)"
  by (induction n) (simp_all add: utf8_length_def)

lemma json_quote_e_acute:
  "json_quote (replicate n (CHR 0xE9)) = CHR 0x22 # replicate n (CHR 0xE9) @ [CHR 0x22]"
proof -
  have "json_escape (CHR 0xE9) = [CHR 0xE9]" by (simp add: json_escape_def)
  then show ?thesis by (simp add: json_quote_def concat_replicate_single)
qed

text \<open>
  C6. The guard of \<open>_send\<close> compares the \<open>length\<close> of the serialized string, which counts
  code units, with 256000. The record above serializes to 200021 code units and 400021
  bytes: it passes the guard and is handed to the transport.
\<close>

theorem send_counts_code_units:
  "json_stringify (JObj accented_record) = Some accented_json \<and>
   length accented_json = 200021 \<and>
   utf8_length accented_json = 400021 \<and>
   send accented_record
     \<lparr>api = JStr ''https://api.example.com/prod'', app = JStr ''app'', templateBucket = JStr ''bucket''\<rparr> =
   Inr \<lparr>url = ''https://api.example.com/prod'', hostname = ''api.example.com'', path = ''/prod'',
        body = accented_json\<rparr>"
proof -
  have q: "json_quote ''id'' = [CHR 0x22, CHR ''i'', CHR ''d'', CHR 0x22]"
    "json_quote ''n1'' = [CHR 0x22, CHR ''n'', CHR ''1'', CHR 0x22]"
    "json_quote ''text'' = [CHR 0x22, CHR ''t'', CHR ''e'', CHR ''x'', CHR ''t'', CHR 0x22]"
    by (simp_all add: json_quote_def json_escape_def)
  have j: "json_stringify (JObj accented_record) = Some accented_json"
    by (simp add: accented_record_def accented_json_def q json_quote_e_acute)
  have l: "length accented_json = 200021" by (simp add: accented_json_def)
  have u: "utf8_length accented_json = 400021"
    unfolding accented_json_def utf8_length_append utf8_length_replicate
    by (simp add: utf8_length_def)
  have sp: "split ''https://api.example.com/prod'' ''//'' = [''https:'', ''api.example.com/prod'']"
    "split ''api.example.com/prod'' ''/'' = [''api.example.com'', ''prod'']"
    by (simp_all add: split_def)
  have s: "send accented_record \<lparr>api = JStr ''https://api.example.com/prod'', app = JStr ''app'',
      templateBucket = JStr ''bucket''\<rparr> =
    Inr \<lparr>url = ''https://api.example.com/prod'', hostname = ''api.example.com'', path = ''/prod'',
      body = accented_json\<rparr>"
    unfolding send_def j using l by (simp add: sp)
  show ?thesis using j l u s by simp
qed

subsection \<open>Writes into the caller's objects\<close>






lemma cronBuilder_rejects:
  "(\<exists>e. cronBuilder env schedule dl = Inl e) \<longleftrightarrow>
   (truthy (obj_get schedule ''day'') \<and>
      (truthy (obj_get schedule ''weekDay'') \<or> truthy (obj_get schedule ''workingDays''))) \<or>
   (truthy (obj_get schedule ''end'') \<and> new_Date env (obj_get schedule ''end'') = None)"
  by (auto simp: cronBuilder_def Let_def)









subsection \<open>The calendar fields of an instant\<close>

lemma DaysInYear_bounds: "365 \<le> DaysInYear y" "DaysInYear y \<le> 366"
  by (simp_all add: DaysInYear_def)

lemma DayFromYear_1970: "DayFromYear 1970 = 0"
  by (simp add: DayFromYear_def)

lemma DayFromYear_after: "0 \<le> k \<Longrightarrow> DayFromYear (1970 + k) \<le> 366 * k"
proof (induction k rule: int_ge_induct)
  case base
  then show ?case by (simp add: DayFromYear_1970)
next
  case (step i)
  have "DayFromYear (1970 + (i + 1)) = DayFromYear (1970 + i) + DaysInYear (1970 + i)"
    using DayFromYear_step [of "1970 + i"] by (simp add: add.assoc)
  then show ?case using step.IH DaysInYear_bounds(2) [of "1970 + i"] by simp
qed

lemma DayFromYear_before: "k \<le> 0 \<Longrightarrow> DayFromYear (1970 + k) \<le> 365 * k"
proof (induction k rule: int_le_induct)
  case base
  then show ?case by (simp add: DayFromYear_1970)
next
  case (step i)
  have "DayFromYear (1970 + (i - 1) + 1) = DayFromYear (1970 + (i - 1)) + DaysInYear (1970 + (i - 1))"
    by (rule DayFromYear_step)
  then have "DayFromYear (1970 + i) = DayFromYear (1970 + (i - 1)) + DaysInYear (1970 + (i - 1))"
    by simp
  then show ?case using step.IH DaysInYear_bounds(1) [of "1970 + (i - 1)"] by simp
qed

lemma year_up_bounds:
  "DayFromYear y \<le> d \<Longrightarrow>
   DayFromYear (year_up d y) \<le> d \<and> d < DayFromYear (year_up d y + 1)"
proof (induction d y rule: year_up.induct)
  case (1 d y)
  show ?case
  proof (cases "DayFromYear (y + 1) \<le> d")
    case True
    then show ?thesis using "1.IH" [OF True True] by (simp add: year_up.simps [of d y])
  next
    case False
    then show ?thesis using "1.prems" by (simp add: year_up.simps [of d y])
  qed
qed

lemma mult_div_le_int: "0 < b \<Longrightarrow> b * ((a::int) div b) \<le> a"
  using mult_div_mod_eq [of b a] pos_mod_sign [of b a] by linarith

lemma YearFromDay_bounds:
  "DayFromYear (YearFromDay d) \<le> d \<and> d < DayFromYear (YearFromDay d + 1)"
proof -
  define k where "k = (if 0 \<le> d then d div 366 else d div 365)"
  have "DayFromYear (1970 + k) \<le> d"
  proof (cases "0 \<le> d")
    case True
    then have k: "k = d div 366" and k0: "0 \<le> k" by (simp_all add: k_def pos_imp_zdiv_nonneg_iff)
    have "366 * k \<le> d" unfolding k by (rule mult_div_le_int) simp
    then show ?thesis using DayFromYear_after [OF k0] by linarith
  next
    case False
    then have k: "k = d div 365" and k0: "k \<le> 0"
      by (simp_all add: k_def div_nonpos_pos_le0)
    have "365 * k \<le> d" unfolding k by (rule mult_div_le_int) simp
    then show ?thesis using DayFromYear_before [OF k0] by linarith
  qed
  then show ?thesis unfolding YearFromDay_def k_def [symmetric] by (rule year_up_bounds)
qed

lemma DayWithinYear_bounds:
  "0 \<le> DayWithinYear t" "DayWithinYear t < DaysInYear (YearFromTime t)"
  using YearFromDay_bounds [of "Day t"] DayFromYear_step [of "YearFromTime t"]
  by (simp_all add: DayWithinYear_def YearFromTime_def)

lemma time_of_day:
  "msPerDay * Day t + msPerHour * HourFromTime t + msPerMinute * MinFromTime t \<le> t \<and>
   t < msPerDay * Day t + msPerHour * HourFromTime t + msPerMinute * MinFromTime t + msPerMinute \<and>
   0 \<le> HourFromTime t \<and> HourFromTime t < 24 \<and> 0 \<le> MinFromTime t \<and> MinFromTime t < 60"
proof -
  define q where "q = t div 60000"
  define r where "r = t mod 60000"
  define H where "H = q div 60"
  define mm where "mm = q mod 60"
  define D where "D = H div 24"
  define hh where "hh = H mod 24"
  have t: "t = 60000 * q + r" and r: "0 \<le> r" "r < 60000"
    by (simp_all add: q_def r_def)
  have q: "q = 60 * H + mm" and mm: "0 \<le> mm" "mm < 60"
    by (simp_all add: H_def mm_def)
  have H: "H = 24 * D + hh" and hh: "0 \<le> hh" "hh < 24"
    by (simp_all add: D_def hh_def)
  have "t div 3600000 = t div (60000 * 60)" by simp
  also have "\<dots> = H" unfolding H_def q_def by (rule zdiv_zmult2_eq) simp
  finally have hour: "HourFromTime t = hh"
    by (simp add: HourFromTime_def msPerHour_def hh_def)
  have "t div 86400000 = t div (60000 * 1440)" by simp
  also have "\<dots> = q div 1440" unfolding q_def by (rule zdiv_zmult2_eq) simp
  also have "q div 1440 = q div (60 * 24)" by simp
  also have "\<dots> = D" unfolding D_def H_def by (rule zdiv_zmult2_eq) simp
  finally have day: "Day t = D" by (simp add: Day_def msPerDay_def)
  have minute: "MinFromTime t = mm" by (simp add: MinFromTime_def msPerMinute_def mm_def q_def)
  show ?thesis
    unfolding hour day minute msPerDay_def msPerHour_def msPerMinute_def
    using t r q mm H hh by simp
qed

lemma DaysInYear_leap: "DaysInYear y = 365 + (if DaysInYear y = 366 then 1 else 0)"
  by (simp add: DaysInYear_def)

lemma month_table:
  fixes w l :: int
  assumes "0 \<le> w" and "w < 365 + l" and "0 \<le> l"
  defines "tab \<equiv> [0, 31, 59 + l, 90 + l, 120 + l, 151 + l, 181 + l, 212 + l, 243 + l, 273 + l,
       304 + l, 334 + l, 365 + l]"
  defines "m \<equiv> (if w < 31 then 0 else if w < 59 + l then 1 else if w < 90 + l then 2
      else if w < 120 + l then 3 else if w < 151 + l then 4 else if w < 181 + l then 5
      else if w < 212 + l then 6 else if w < 243 + l then 7 else if w < 273 + l then 8
      else if w < 304 + l then 9 else if w < 334 + l then 10 else (11::int))"
  defines "d \<equiv> (if m = 0 then w + 1 else if m = 1 then w - 30 else if m = 2 then w - 58 - l
      else if m = 3 then w - 89 - l else if m = 4 then w - 119 - l
      else if m = 5 then w - 150 - l else if m = 6 then w - 180 - l
      else if m = 7 then w - 211 - l else if m = 8 then w - 242 - l
      else if m = 9 then w - 272 - l else if m = 10 then w - 303 - l else w - 333 - l)"
  shows "0 \<le> m \<and> m \<le> 11 \<and> 1 \<le> d \<and> tab ! nat m + d - 1 = w \<and> tab ! nat m + d \<le> tab ! nat (m + 1)"
proof -
  consider (c0) "w < 31"
    | (c1) "31 \<le> w" "w < 59 + l"
    | (c2) "59 + l \<le> w" "w < 90 + l"
    | (c3) "90 + l \<le> w" "w < 120 + l"
    | (c4) "120 + l \<le> w" "w < 151 + l"
    | (c5) "151 + l \<le> w" "w < 181 + l"
    | (c6) "181 + l \<le> w" "w < 212 + l"
    | (c7) "212 + l \<le> w" "w < 243 + l"
    | (c8) "243 + l \<le> w" "w < 273 + l"
    | (c9) "273 + l \<le> w" "w < 304 + l"
    | (c10) "304 + l \<le> w" "w < 334 + l"
    | (c11) "334 + l \<le> w"
    by linarith
  then show ?thesis
  proof cases
    case c0
    then have m: "m = 0" using assms(3) unfolding m_def by simp
    show ?thesis using c0 assms(1,2,3) unfolding m d_def tab_def by simp
  next
    case c1
    then have m: "m = 1" using assms(3) unfolding m_def by simp
    show ?thesis using c1 assms(1,2,3) unfolding m d_def tab_def by simp
  next
    case c2
    then have m: "m = 2" using assms(3) unfolding m_def by simp
    show ?thesis using c2 assms(1,2,3) unfolding m d_def tab_def by simp
  next
    case c3
    then have m: "m = 3" using assms(3) unfolding m_def by simp
    show ?thesis using c3 assms(1,2,3) unfolding m d_def tab_def by simp
  next
    case c4
    then have m: "m = 4" using assms(3) unfolding m_def by simp
    show ?thesis using c4 assms(1,2,3) unfolding m d_def tab_def by simp
  next
    case c5
    then have m: "m = 5" using assms(3) unfolding m_def by simp
    show ?thesis using c5 assms(1,2,3) unfolding m d_def tab_def by simp
  next
    case c6
    then have m: "m = 6" using assms(3) unfolding m_def by simp
    show ?thesis using c6 assms(1,2,3) unfolding m d_def tab_def by simp
  next
    case c7
    then have m: "m = 7" using assms(3) unfolding m_def by simp
    show ?thesis using c7 assms(1,2,3) unfolding m d_def tab_def by simp
  next
    case c8
    then have m: "m = 8" using assms(3) unfolding m_def by simp
    show ?thesis using c8 assms(1,2,3) unfolding m d_def tab_def by simp
  next
    case c9
    then have m: "m = 9" using assms(3) unfolding m_def by simp
    show ?thesis using c9 assms(1,2,3) unfolding m d_def tab_def by simp
  next
    case c10
    then have m: "m = 10" using assms(3) unfolding m_def by simp
    show ?thesis using c10 assms(1,2,3) unfolding m d_def tab_def by simp
  next
    case c11
    then have m: "m = 11" using assms(3) unfolding m_def by simp
    show ?thesis using c11 assms(1,2,3) unfolding m d_def tab_def by simp
  qed
qed

lemma calendar_fields:
  "utc_minute t (YearFromTime t) (MonthFromTime t + 1) (DateFromTime t) (HourFromTime t)
     (MinFromTime t)"
proof -
  define y where "y = YearFromTime t"
  define w where "w = DayWithinYear t"
  define l where "l = InLeapYear t"
  define m where "m = MonthFromTime t"
  define d where "d = DateFromTime t"
  have l: "l = (if DaysInYear y = 366 then 1 else 0)" by (simp add: l_def y_def InLeapYear_def)
  have l0: "0 \<le> l" by (simp add: l)
  have w0: "0 \<le> w" unfolding w_def by (rule DayWithinYear_bounds)
  have "w < DaysInYear y" unfolding w_def y_def by (rule DayWithinYear_bounds)
  then have w1: "w < 365 + l" using DaysInYear_leap [of y] l by simp
  define T where "T = (\<lambda>k. [0, 31, 59 + l, 90 + l, 120 + l, 151 + l, 181 + l, 212 + l,
      243 + l, 273 + l, 304 + l, 334 + l, 365 + l] ! k)"
  have ms: "month_start y k = DayFromYear y + T k" for k
    by (simp add: month_start_def l T_def)
  have tab: "0 \<le> m \<and> m \<le> 11 \<and> 1 \<le> d \<and> T (nat m) + d - 1 = w \<and>
      T (nat m) + d \<le> T (nat (m + 1))"
    using month_table [OF w0 w1 l0]
    unfolding m_def d_def MonthFromTime_def DateFromTime_def Let_def
      w_def [symmetric] l_def [symmetric] T_def .
  have day: "month_start y (nat m) + d - 1 = Day t"
    using tab unfolding ms by (simp add: w_def DayWithinYear_def y_def)
  have next_month: "month_start y (nat m) + d \<le> month_start y (nat (m + 1))"
    using tab unfolding ms by simp
  have "utc_minute t y (m + 1) d (HourFromTime t) (MinFromTime t)"
    unfolding utc_minute_def using tab day next_month time_of_day [of t] by simp
  then show ?thesis by (simp add: y_def m_def d_def)
qed

text \<open>
  C2, as the code has it. A schedule with none of the six fields set gets \<open>once = true\<close>
  and an expression whose minute, hour, day of month, month and year are the UTC calendar
  fields of the instant now + delay seconds and whose day of week is \<open>?\<close>, provided the
  schedule is accepted, that is its \<open>end\<close> is absent or a valid date, and the instant is
  one a Date can hold.
\<close>

theorem cronBuilder_default:
  assumes "no_fields schedule"
    and "\<not> truthy (obj_get schedule ''end'') \<or> new_Date env (obj_get schedule ''end'') \<noteq> None"
    and "\<bar>now env + dl * 1000\<bar> \<le> 8640000000000000"
  shows "\<exists>s y mo d h mi.
     cronBuilder env schedule dl = Inr s \<and>
     obj_get s ''once'' = JBool True \<and>
     obj_get s ''expression'' =
       JStr (''cron('' @ show_int mi @ '' '' @ show_int h @ '' '' @ show_int d @ '' '' @
             show_int mo @ '' ? '' @ show_int y @ '')'') \<and>
     utc_minute (now env + dl * 1000) y mo d h mi"
proof -
  define t where "t = now env + dl * 1000"
  have clip: "TimeClip t = Some t" using assms(3) by (simp add: TimeClip_def t_def)
  have day: "\<not> truthy (obj_get schedule ''day'')" using assms(1) by (simp add: no_fields_def)
  have e: "cron_expression (default_cron env dl) =
      ''cron('' @ show_int (MinFromTime t) @ '' '' @ show_int (HourFromTime t) @ '' '' @
      show_int (DateFromTime t) @ '' '' @ show_int (MonthFromTime t + 1) @ '' ? '' @
      show_int (YearFromTime t) @ '')''"
    by (simp add: cron_expression_def default_cron_def t_def [symmetric] clip getUTCMinutes_def
        getUTCHours_def getUTCDate_def getUTCMonth_def getUTCFullYear_def)
  obtain s where s: "cronBuilder env schedule dl = Inr s"
    and once: "obj_get s ''once'' = JBool True"
    and ex: "obj_get s ''expression'' = JStr (cron_expression (default_cron env dl))"
    using assms(1,2) day by (auto simp: cronBuilder_def Let_def obj_get_set)
  show ?thesis
    using s once ex calendar_fields [of t] unfolding e t_def by blast
qed

theorem cronBuilder_default_witness:
  "no_fields [(''end'', JStr ''2020-01-01'')] \<and>
   new_Date (example_host 1577836680000) (JStr ''2020-01-01'') = Some 1577836800000 \<and>
   cronBuilder (example_host 1577836680000) [(''end'', JStr ''2020-01-01'')] 120 =
     Inr [(''end'', JNum 1577836800000), (''once'', JBool True),
          (''expression'', JStr ''cron(0 0 1 1 ? 2020)'')]"
proof -
  have n: "no_fields [(''end'', JStr ''2020-01-01'')]" by (simp add: no_fields_def)
  have p: "new_Date (example_host 1577836680000) (JStr ''2020-01-01'') = Some 1577836800000"
    by code_simp
  have a: "\<not> truthy (obj_get [(''end'', JStr ''2020-01-01'')] ''end'') \<or>
      new_Date (example_host 1577836680000) (obj_get [(''end'', JStr ''2020-01-01'')] ''end'') \<noteq> None"
    using p by simp
  have b: "\<bar>now (example_host 1577836680000) + 120 * 1000\<bar> \<le> 8640000000000000"
    by (simp add: example_host_def)
  have r: "cronBuilder (example_host 1577836680000) [(''end'', JStr ''2020-01-01'')] 120 =
     Inr [(''end'', JNum 1577836800000), (''once'', JBool True),
          (''expression'', JStr ''cron(0 0 1 1 ? 2020)'')]"
    by code_simp
  show ?thesis using cronBuilder_default [OF n a b] n p r by simp
qed

text \<open>A schedule with no field set and an \<open>end\<close> that is no date: the call throws.\<close>

theorem cronBuilder_default_invalid_end:
  "no_fields [(''end'', JStr ''soon'')] \<and>
   cronBuilder (example_host 1577836680000) [(''end'', JStr ''soon'')] 120 =
     Inl (TypeError ''Schedule `end` date format is invalid. Please, use ISO format (YYYY-MM-DD or YYYY-MM-DD HH:MM)'')"
  by (simp add: no_fields_def cronBuilder_def end_format_message_def example_host_def
      parse_date_only_def)

end
